theory Spec2Isabelle
  imports Main
begin

section \<open>Types as the constraints of fmt\_compat.h query them\<close>

text \<open>
  The header \<^verbatim>\<open>symforce/opt/fmt_compat.h\<close> declares one concept and two constrained
  partial specialisations. Their constraints are predicates on a type \<open>T\<close> that the
  compiler evaluates, built from four facts about \<open>T\<close>: its primary category
  (\<^verbatim>\<open>std::is_class_v\<close>), whether a member call \<^verbatim>\<open>t.f()\<close> is well-formed, whether
  a stream insertion \<^verbatim>\<open>os << t\<close> is well-formed, and whether
  \<^verbatim>\<open>std::is_convertible_v<const T&, fmt::string_view>\<close> holds. Whether an expression is
  well-formed is decided by the rules of the language (lookup, access, overload
  resolution, conversions), not by the header, so a type is described by the compiler's
  answers themselves. The name of the type and its named base classes are part of the
  description too.
\<close>

datatype type_category =
  class_type | union_type | enum_type | arithmetic_type | pointer_type | other_type

text \<open>
  How the object of a requirement is declared: \<^verbatim>\<open>const T& t\<close> or \<^verbatim>\<open>T& t\<close>.
\<close>

datatype receiver = const_object | mutable_object

text \<open>
  \<open>member_call_well_formed T r f\<close>: the expression \<^verbatim>\<open>t.f()\<close> is well-formed for
  \<open>t\<close> declared as \<open>r\<close> says. \<open>insertion_well_formed T r\<close>: the expression
  \<^verbatim>\<open>os << t\<close> is well-formed for \<^verbatim>\<open>std::ostream& os\<close> and \<open>t\<close> declared as
  \<open>r\<close> says.
\<close>

record cpp_type =
  type_name :: string
  base_classes :: "string list"
  category :: type_category
  member_call_well_formed :: "receiver \<Rightarrow> string \<Rightarrow> bool"
  insertion_well_formed :: "receiver \<Rightarrow> bool"
  converts_to_string_view :: bool

text \<open>The character type of a formatting context (the second template argument).\<close>

datatype char_type = narrow_char | wchar_t | char8_t | char16_t | char32_t

definition is_class_v :: "cpp_type \<Rightarrow> bool" where
  "is_class_v T = (category T = class_type)"

section \<open>1. The concept EigenDerived and the range\_format\_kind specialisation\<close>

text \<open>
  \<^verbatim>\<open>template <typename T>
  concept EigenDerived = requires(const T& t) { t.derived(); };\<close>
\<close>

definition EigenDerived :: "cpp_type \<Rightarrow> bool" where
  "EigenDerived T = member_call_well_formed T const_object ''derived''"

text \<open>
  Modelled from the spec: the values of the host library's range classification
  (\<^verbatim>\<open>fmt::range_format\<close>, declared in the formatting library and not in this header).
  The header names only \<open>disabled\<close>; the spec speaks of sequence formatting besides;
  \<open>other_format\<close> stands for any further value the host may have.
\<close>

datatype range_format = disabled | sequence | other_format

text \<open>
  \<^verbatim>\<open>template <EigenDerived T>
  struct fmt::range_format_kind<T, char>
      : std::integral_constant<fmt::range_format, fmt::range_format::disabled> {};\<close>

  The value of the trait once the header is included. \<open>primary\<close> is the value the host
  library's own template gives, a parameter: the specialisation replaces it for the types
  of the concept in the \<^verbatim>\<open>char\<close> context and nowhere else.
\<close>

definition range_format_kind ::
  "(cpp_type \<Rightarrow> char_type \<Rightarrow> range_format) \<Rightarrow> cpp_type \<Rightarrow> char_type \<Rightarrow> range_format" where
  "range_format_kind primary T C =
     (if EigenDerived T \<and> C = narrow_char then disabled else primary T C)"

section \<open>2. The formatter specialisation\<close>

text \<open>
  \<^verbatim>\<open>template <typename T>
    requires std::is_class_v<T>
          && (!std::is_convertible_v<const T&, fmt::string_view>)
          && requires(std::ostream& os, const T& t) { os << t; }
  struct fmt::formatter<T, char> : fmt::ostream_formatter {};\<close>
\<close>

definition formatter_requires :: "cpp_type \<Rightarrow> bool" where
  "formatter_requires T =
     (is_class_v T \<and> \<not> converts_to_string_view T \<and> insertion_well_formed T const_object)"

definition formatter_matches :: "cpp_type \<Rightarrow> char_type \<Rightarrow> bool" where
  "formatter_matches T C = (C = narrow_char \<and> formatter_requires T)"

text \<open>
  The body of the specialisation is empty: the formatter it registers for a matching type
  is \<^verbatim>\<open>fmt::ostream_formatter\<close> itself, with no member added.
\<close>

datatype 'h formatter_impl = range_formatter range_format | native 'h | ostream_formatter

definition header_formatter :: "cpp_type \<Rightarrow> char_type \<Rightarrow> 'h formatter_impl option" where
  "header_formatter T C = (if formatter_matches T C then Some ostream_formatter else None)"

section \<open>The host library around the header\<close>

text \<open>
  Modelled from the spec: the host formatting library's choice of a formatter, which is
  not part of this header. The host consults the range classification to decide whether
  to format a type as a sequence or to defer to another formatter; it has formatters of
  its own for the types it handles natively (strings, numbers), the parameter
  \<open>native_formatter\<close>; and where several equally specific formatters match one type,
  the host's own resolution rules decide, which the header leaves open (\<open>contested\<close>).
\<close>

record 'h host_library =
  primary_range_kind :: "cpp_type \<Rightarrow> char_type \<Rightarrow> range_format"
  native_formatter :: "cpp_type \<Rightarrow> 'h option"

text \<open>
  Modelled from the spec: the formatters of the host's own that match a type once the
  header is included, the sequence formatter unless the range classification of the type
  is \<open>disabled\<close>, and the native formatter if there is one.
\<close>

definition host_formatters :: "'h host_library \<Rightarrow> cpp_type \<Rightarrow> 'h formatter_impl list" where
  "host_formatters host T =
     (case range_format_kind (primary_range_kind host) T narrow_char of
        disabled \<Rightarrow> []
      | k \<Rightarrow> [range_formatter k])
     @ (case native_formatter host T of None \<Rightarrow> [] | Some h \<Rightarrow> [native h])"

text \<open>
  All formatters that match a type in the \<^verbatim>\<open>char\<close> context: the host's and the one the
  header registers.
\<close>

definition matching_formatters :: "'h host_library \<Rightarrow> cpp_type \<Rightarrow> 'h formatter_impl list" where
  "matching_formatters host T =
     host_formatters host T
     @ (case header_formatter T narrow_char of None \<Rightarrow> [] | Some f \<Rightarrow> [f])"

text \<open>
  Modelled from the spec: the host's selection. A single matching formatter is selected;
  with none the type has no formatter; with several the outcome is the host's to decide.
\<close>

datatype 'h selection =
  selected "'h formatter_impl" | contested "'h formatter_impl list" | no_formatter

definition select_formatter :: "'h host_library \<Rightarrow> cpp_type \<Rightarrow> 'h selection" where
  "select_formatter host T =
     (case matching_formatters host T of
        [] \<Rightarrow> no_formatter
      | [f] \<Rightarrow> selected f
      | fs \<Rightarrow> contested fs)"

section \<open>Streams and the text a formatter produces\<close>

text \<open>
  An output stream is the text written to it so far and its formatting flags. A
  stream-insertion operator \<^verbatim>\<open>std::ostream& operator<<(std::ostream&, const T&)\<close> is a
  function from the value and the stream to the stream after the write.
\<close>

record ostream =
  buffer :: string
  fmtflags :: nat

type_synonym 'v inserter = "'v \<Rightarrow> ostream \<Rightarrow> ostream"

definition fresh_ostream :: ostream where
  "fresh_ostream = \<lparr>buffer = [], fmtflags = 0\<rparr>"

text \<open>
  Writing a value directly to a stream and capturing the result:
  \<^verbatim>\<open>std::ostringstream os; os << v; return os.str();\<close>
\<close>

definition stream_capture :: "'v inserter \<Rightarrow> 'v \<Rightarrow> string" where
  "stream_capture ins v = buffer (ins v fresh_ostream)"

text \<open>
  Modelled from the spec: \<^verbatim>\<open>fmt::ostream_formatter\<close>, the ready-made stream-forwarding
  formatter that the host library supplies and this header inherits from; its code is
  not part of the header. When invoked it writes the value into a stream and yields the
  resulting text as the formatted output: \<open>out\<close> is the output produced before the
  call, the result is the output after it.
\<close>

definition ostream_format :: "'v inserter \<Rightarrow> 'v \<Rightarrow> string \<Rightarrow> string" where
  "ostream_format ins v out = out @ buffer (ins v fresh_ostream)"

fun join :: "string \<Rightarrow> string list \<Rightarrow> string" where
  "join sep [] = []"
| "join sep [x] = x"
| "join sep (x # y # ys) = x @ sep @ join sep (y # ys)"

text \<open>
  Modelled from the spec: the host's sequence formatting, a bracketed sequence
  representation of the elements between \<^verbatim>\<open>begin()\<close> and \<^verbatim>\<open>end()\<close>.
\<close>

definition bracketed :: "string list \<Rightarrow> string" where
  "bracketed xs = ''['' @ join '', '' xs @ '']''"

text \<open>
  What a type's values offer at run time: the stream-insertion operator, the formatted
  elements of the range, and the text of a native formatter of the host.
\<close>

record ('v, 'h) value_ops =
  insertion :: "'v inserter"
  range_elements :: "'v \<Rightarrow> string list"
  native_text :: "'h \<Rightarrow> 'v \<Rightarrow> string"

text \<open>
  Modelled from the spec: invoking a formatter appends its text for the value to the
  output.
\<close>

fun invoke :: "('v, 'h) value_ops \<Rightarrow> 'h formatter_impl \<Rightarrow> 'v \<Rightarrow> string \<Rightarrow> string" where
  "invoke ops ostream_formatter v out = ostream_format (insertion ops) v out"
| "invoke ops (range_formatter k) v out = out @ bracketed (range_elements ops v)"
| "invoke ops (native h) v out = out @ native_text ops h v"

text \<open>
  Modelled from the spec: formatting one value into an empty output. The selected
  formatter is invoked; there is no text when no single formatter is selected (the
  program does not compile).
\<close>

definition format_value ::
  "'h host_library \<Rightarrow> cpp_type \<Rightarrow> ('v, 'h) value_ops \<Rightarrow> 'v \<Rightarrow> string option" where
  "format_value host T ops v =
     (case select_formatter host T of
        selected f \<Rightarrow> Some (invoke ops f v [])
      | contested fs \<Rightarrow> None
      | no_formatter \<Rightarrow> None)"

text \<open>
  Modelled from the spec: a sequence of formatting calls through the stream formatter,
  each appending to the output of the calls before it.
\<close>

fun format_calls :: "('v inserter \<times> 'v) list \<Rightarrow> string \<Rightarrow> string" where
  "format_calls [] out = out"
| "format_calls ((ins, v) # cs) out = format_calls cs (ostream_format ins v out)"

text \<open>The text one call adds to the output.\<close>

definition produced_text :: "'v inserter \<Rightarrow> 'v \<Rightarrow> string \<Rightarrow> string" where
  "produced_text ins v out = drop (length out) (ostream_format ins v out)"

section \<open>Example types\<close>

text \<open>A struct \<open>Point\<close> with \<^verbatim>\<open>operator<<(std::ostream&, const Point&)\<close>.\<close>

definition Point :: cpp_type where
  "Point = \<lparr>type_name = ''Point'', base_classes = [], category = class_type,
     member_call_well_formed = (\<lambda>r f. False),
     insertion_well_formed = (\<lambda>r. True),
     converts_to_string_view = False\<rparr>"

text \<open>\<^verbatim>\<open>int\<close>: streamable, not a class.\<close>

definition int_type :: cpp_type where
  "int_type = \<lparr>type_name = ''int'', base_classes = [], category = arithmetic_type,
     member_call_well_formed = (\<lambda>r f. False),
     insertion_well_formed = (\<lambda>r. True),
     converts_to_string_view = False\<rparr>"

text \<open>\<^verbatim>\<open>std::string\<close>: a streamable class that converts to a string view.\<close>

definition std_string :: cpp_type where
  "std_string = \<lparr>type_name = ''std::string'', base_classes = [], category = class_type,
     member_call_well_formed = (\<lambda>r f. f = ''begin'' \<or> f = ''end''),
     insertion_well_formed = (\<lambda>r. True),
     converts_to_string_view = True\<rparr>"

text \<open>A class without any \<^verbatim>\<open>operator<<\<close>.\<close>

definition Opaque :: cpp_type where
  "Opaque = \<lparr>type_name = ''Opaque'', base_classes = [], category = class_type,
     member_call_well_formed = (\<lambda>r f. False),
     insertion_well_formed = (\<lambda>r. False),
     converts_to_string_view = False\<rparr>"

text \<open>
  A stand-in matrix type: public \<^verbatim>\<open>derived() const\<close>, \<^verbatim>\<open>begin() const\<close>,
  \<^verbatim>\<open>end() const\<close> and \<^verbatim>\<open>operator<<(std::ostream&, const Matrix2&)\<close>.
\<close>

definition Matrix2 :: cpp_type where
  "Matrix2 = \<lparr>type_name = ''Matrix2'', base_classes = [], category = class_type,
     member_call_well_formed = (\<lambda>r f. f = ''derived'' \<or> f = ''begin'' \<or> f = ''end''),
     insertion_well_formed = (\<lambda>r. True),
     converts_to_string_view = False\<rparr>"

text \<open>
  A class whose only \<^verbatim>\<open>derived()\<close> is a public non-static member function that is not
  const, and whose only way into a stream is
  \<^verbatim>\<open>operator<<(std::ostream&, MutableOnly&)\<close>.
\<close>

definition MutableOnly :: cpp_type where
  "MutableOnly = \<lparr>type_name = ''MutableOnly'', base_classes = [], category = class_type,
     member_call_well_formed = (\<lambda>r f. r = mutable_object \<and> f = ''derived''),
     insertion_well_formed = (\<lambda>r. r = mutable_object),
     converts_to_string_view = False\<rparr>"

text \<open>
  The host's own range classification used in the examples: a type with
  \<^verbatim>\<open>begin()\<close> and \<^verbatim>\<open>end()\<close> that is not string-like is a sequence (the header's
  comment: such types are treated as iterable ranges by \<^verbatim>\<open>fmt/ranges.h\<close>).
\<close>

definition iterable_primary :: "cpp_type \<Rightarrow> char_type \<Rightarrow> range_format" where
  "iterable_primary T C =
     (if \<not> converts_to_string_view T
         \<and> member_call_well_formed T const_object ''begin''
         \<and> member_call_well_formed T const_object ''end''
      then sequence else disabled)"

text \<open>
  A CRTP container class unrelated to linear algebra: its base
  \<^verbatim>\<open>Component<Widget>\<close> provides a public \<^verbatim>\<open>derived() const\<close>, and it has
  \<^verbatim>\<open>begin() const\<close> and \<^verbatim>\<open>end() const\<close> over its children.
\<close>

definition Widget :: cpp_type where
  "Widget = \<lparr>type_name = ''Widget'', base_classes = [''Component<Widget>''],
     category = class_type,
     member_call_well_formed = (\<lambda>r f. f = ''derived'' \<or> f = ''begin'' \<or> f = ''end''),
     insertion_well_formed = (\<lambda>r. False),
     converts_to_string_view = False\<rparr>"

text \<open>
  A class that inherits privately from a linear-algebra expression base, so that the
  base's \<^verbatim>\<open>derived()\<close> cannot be called from outside, with public
  \<^verbatim>\<open>begin() const\<close> and \<^verbatim>\<open>end() const\<close> of its own.
\<close>

definition Wrapped :: cpp_type where
  "Wrapped = \<lparr>type_name = ''Wrapped'', base_classes = [''Eigen::MatrixBase<Wrapped>''],
     category = class_type,
     member_call_well_formed = (\<lambda>r f. f = ''begin'' \<or> f = ''end''),
     insertion_well_formed = (\<lambda>r. False),
     converts_to_string_view = False\<rparr>"

text \<open>
  A host in the examples: the range classification above, a string formatter for the
  string-like types and a number formatter for the arithmetic types.
\<close>

definition example_host :: "string host_library" where
  "example_host = \<lparr>primary_range_kind = iterable_primary,
     native_formatter = (\<lambda>T. if converts_to_string_view T then Some ''string''
        else if category T = arithmetic_type then Some ''arithmetic'' else None)\<rparr>"

text \<open>Decimal text of an integer, as \<^verbatim>\<open>os << int\<close> writes it.\<close>

definition digit_char :: "nat \<Rightarrow> char" where
  "digit_char d = ''0123456789'' ! d"

fun digits :: "nat \<Rightarrow> string" where
  "digits n = (if n < 10 then [digit_char n] else digits (n div 10) @ [digit_char (n mod 10)])"

definition show_int :: "int \<Rightarrow> string" where
  "show_int i = (if i < 0 then CHR ''-'' # digits (nat (- i)) else digits (nat i))"

text \<open>
  \<open>Point\<close> has \<^verbatim>\<open>int x, y;\<close> and a stream operator that writes \<^verbatim>\<open>(x, y)\<close>.
\<close>

definition point_insert :: "(int \<times> int) inserter" where
  "point_insert p os =
     os\<lparr>buffer := buffer os @ ''('' @ show_int (fst p) @ '', '' @ show_int (snd p) @ '')''\<rparr>"

definition point_ops :: "(int \<times> int, string) value_ops" where
  "point_ops = \<lparr>insertion = point_insert, range_elements = (\<lambda>p. []),
     native_text = (\<lambda>h p. [])\<rparr>"

text \<open>
  The stand-in matrix holds its rows; its stream operator writes a grid, one row per
  line, the entries of a row separated by a space. Iterating it visits the entries row by
  row.
\<close>

definition matrix_insert :: "int list list inserter" where
  "matrix_insert m os =
     os\<lparr>buffer := buffer os @ join [CHR 0x0A] (map (\<lambda>row. join '' '' (map show_int row)) m)\<rparr>"

definition matrix_ops :: "(int list list, string) value_ops" where
  "matrix_ops = \<lparr>insertion = matrix_insert,
     range_elements = (\<lambda>m. map show_int (concat m)),
     native_text = (\<lambda>h m. [])\<rparr>"

definition identity2 :: "int list list" where
  "identity2 = [[1, 0], [0, 1]]"

text \<open>
  A stream operator that reads and changes the stream's flags: it writes which base the
  stream is in and leaves the stream in the hexadecimal state.
\<close>

definition sticky_insert :: "nat inserter" where
  "sticky_insert n os =
     os\<lparr>buffer := buffer os @ (if fmtflags os = 0 then ''dec'' else ''hex''), fmtflags := 1\<rparr>"

section \<open>Properties of the two constraints\<close>

text \<open>
  C2. The formatter specialisation matches a type (in the \<^verbatim>\<open>char\<close> context) if and only
  if the type is a class type, is not convertible to a string view, and stream insertion
  of a const reference to it is well-formed. A type that fails any one of the three is not
  matched, in any context.
\<close>

theorem formatter_matches_iff_three_constraints:
  "(formatter_matches T narrow_char
      = (is_class_v T \<and> \<not> converts_to_string_view T \<and> insertion_well_formed T const_object))
   \<and> (\<not> is_class_v T \<longrightarrow> \<not> formatter_matches T C)
   \<and> (converts_to_string_view T \<longrightarrow> \<not> formatter_matches T C)
   \<and> (\<not> insertion_well_formed T const_object \<longrightarrow> \<not> formatter_matches T C)"
  by (simp add: formatter_matches_def formatter_requires_def)

theorem formatter_matches_iff_three_constraints_witness:
  "formatter_matches Point narrow_char
   \<and> \<not> is_class_v int_type \<and> \<not> formatter_matches int_type narrow_char
   \<and> converts_to_string_view std_string \<and> \<not> formatter_matches std_string narrow_char
   \<and> \<not> insertion_well_formed Opaque const_object \<and> \<not> formatter_matches Opaque narrow_char"
proof -
  have p: "is_class_v Point \<and> \<not> converts_to_string_view Point
      \<and> insertion_well_formed Point const_object"
    by (simp add: Point_def is_class_v_def)
  have i: "\<not> is_class_v int_type"
    by (simp add: int_type_def is_class_v_def)
  have s: "converts_to_string_view std_string"
    by (simp add: std_string_def)
  have q: "\<not> insertion_well_formed Opaque const_object"
    by (simp add: Opaque_def)
  show ?thesis
    using p i s q
      formatter_matches_iff_three_constraints [of Point narrow_char]
      formatter_matches_iff_three_constraints [of int_type narrow_char]
      formatter_matches_iff_three_constraints [of std_string narrow_char]
      formatter_matches_iff_three_constraints [of Opaque narrow_char]
    by blast
qed

text \<open>
  C3. For every type of the concept \<open>EigenDerived\<close>, that is every type on which
  \<^verbatim>\<open>derived()\<close> can be called, the range classification is \<open>disabled\<close>, whatever the
  host library's own template says.
\<close>

theorem eigen_derived_range_format_disabled:
  "EigenDerived T \<Longrightarrow> range_format_kind primary T narrow_char = disabled"
  by (simp add: range_format_kind_def)

theorem eigen_derived_range_format_disabled_witness:
  "EigenDerived Matrix2
   \<and> iterable_primary Matrix2 narrow_char = sequence
   \<and> range_format_kind iterable_primary Matrix2 narrow_char = disabled"
proof -
  have e: "EigenDerived Matrix2"
    by (simp add: EigenDerived_def Matrix2_def)
  have s: "iterable_primary Matrix2 narrow_char = sequence"
    by (simp add: iterable_primary_def Matrix2_def)
  show ?thesis
    using e s eigen_derived_range_format_disabled [OF e, of iterable_primary]
    by simp
qed

text \<open>
  C9. The specialisation is declared for the \<^verbatim>\<open>char\<close> context only: under every other
  character type the range classification of a type, of the concept or not, is the one
  the host library gives.
\<close>

theorem range_format_kind_other_char_unchanged:
  "C \<noteq> narrow_char \<Longrightarrow> range_format_kind primary T C = primary T C"
  by (simp add: range_format_kind_def)

theorem range_format_kind_other_char_unchanged_witness:
  "wchar_t \<noteq> narrow_char \<and> EigenDerived Matrix2
   \<and> range_format_kind iterable_primary Matrix2 wchar_t = sequence"
proof -
  have c: "wchar_t \<noteq> narrow_char"
    by simp
  have e: "EigenDerived Matrix2"
    by code_simp
  have s: "iterable_primary Matrix2 wchar_t = sequence"
    by code_simp
  show ?thesis
    using c e s range_format_kind_other_char_unchanged [OF c, of iterable_primary Matrix2]
    by simp
qed

text \<open>
  C10. Both rules ask for const access. A type of the concept has a \<^verbatim>\<open>derived()\<close> that
  can be called on a const reference, and a type the formatter matches has a stream
  insertion that accepts a const reference. A type whose \<^verbatim>\<open>derived()\<close> can be called
  on a mutable reference but not on a const one is not of the concept, and a type whose
  stream insertion accepts a mutable reference but not a const one is not matched by the
  formatter.
\<close>

theorem both_rules_require_const_access:
  "(EigenDerived T \<longrightarrow> member_call_well_formed T const_object ''derived'')
   \<and> (formatter_matches T C \<longrightarrow> insertion_well_formed T const_object)
   \<and> (member_call_well_formed T mutable_object ''derived''
        \<and> \<not> member_call_well_formed T const_object ''derived''
        \<longrightarrow> \<not> EigenDerived T)
   \<and> (insertion_well_formed T mutable_object \<and> \<not> insertion_well_formed T const_object
        \<longrightarrow> \<not> formatter_matches T C)"
proof -
  have 1: "EigenDerived T \<longrightarrow> member_call_well_formed T const_object ''derived''"
    by (simp add: EigenDerived_def)
  have 2: "formatter_matches T C \<longrightarrow> insertion_well_formed T const_object"
    by (simp add: formatter_matches_def formatter_requires_def)
  from 1 2 show ?thesis
    by blast
qed

theorem both_rules_require_const_access_witness:
  "member_call_well_formed MutableOnly mutable_object ''derived''
   \<and> insertion_well_formed MutableOnly mutable_object
   \<and> \<not> EigenDerived MutableOnly
   \<and> \<not> formatter_matches MutableOnly narrow_char
   \<and> EigenDerived Matrix2 \<and> member_call_well_formed Matrix2 const_object ''derived''
   \<and> formatter_matches Matrix2 narrow_char \<and> insertion_well_formed Matrix2 const_object"
proof -
  have m: "member_call_well_formed MutableOnly mutable_object ''derived''"
    by (simp add: MutableOnly_def)
  have i: "insertion_well_formed MutableOnly mutable_object"
    by (simp add: MutableOnly_def)
  have d: "\<not> member_call_well_formed MutableOnly const_object ''derived''"
    by (simp add: MutableOnly_def)
  have o: "\<not> insertion_well_formed MutableOnly const_object"
    by (simp add: MutableOnly_def)
  have e: "EigenDerived Matrix2"
    by (simp add: EigenDerived_def Matrix2_def)
  have f: "formatter_matches Matrix2 narrow_char"
    by (simp add: formatter_matches_def formatter_requires_def is_class_v_def Matrix2_def)
  show ?thesis
    using m i d o e f
      both_rules_require_const_access [of MutableOnly narrow_char]
      both_rules_require_const_access [of Matrix2 narrow_char]
    by blast
qed

text \<open>
  C6. The concept is structural: a type is of the concept exactly when
  \<^verbatim>\<open>t.derived()\<close> is well-formed for a const reference \<open>t\<close> to it. Every such type has
  its range classification disabled, a type without it keeps the classification of the
  host, and two types that agree on that one expression are classified alike, whatever
  their names, base classes and categories.
\<close>

theorem eigen_derived_is_structural:
  "EigenDerived T = member_call_well_formed T const_object ''derived''
   \<and> (member_call_well_formed T const_object ''derived''
        \<longrightarrow> range_format_kind primary T narrow_char = disabled)
   \<and> (\<not> member_call_well_formed T const_object ''derived''
        \<longrightarrow> range_format_kind primary T C = primary T C)
   \<and> (member_call_well_formed U const_object ''derived''
          = member_call_well_formed T const_object ''derived''
        \<longrightarrow> EigenDerived U = EigenDerived T)"
  by (simp add: EigenDerived_def range_format_kind_def)

theorem eigen_derived_is_structural_witness:
  "base_classes Widget \<noteq> base_classes Matrix2
   \<and> EigenDerived Matrix2
   \<and> iterable_primary Widget narrow_char = sequence
   \<and> EigenDerived Widget
   \<and> range_format_kind iterable_primary Widget narrow_char = disabled
   \<and> \<not> EigenDerived Wrapped
   \<and> range_format_kind iterable_primary Wrapped narrow_char = sequence"
proof -
  have b: "base_classes Widget \<noteq> base_classes Matrix2"
    by (simp add: Widget_def Matrix2_def)
  have p: "iterable_primary Widget narrow_char = sequence"
    by (simp add: iterable_primary_def Widget_def)
  have q: "iterable_primary Wrapped narrow_char = sequence"
    by (simp add: iterable_primary_def Wrapped_def)
  have w: "member_call_well_formed Widget const_object ''derived''"
    by (simp add: Widget_def)
  have m: "member_call_well_formed Matrix2 const_object ''derived''
      = member_call_well_formed Widget const_object ''derived''"
    by (simp add: Widget_def Matrix2_def)
  have x: "\<not> member_call_well_formed Wrapped const_object ''derived''"
    by (simp add: Wrapped_def)
  note widget = eigen_derived_is_structural
    [where T = Widget and U = Matrix2 and primary = iterable_primary and C = narrow_char]
  note wrapped = eigen_derived_is_structural
    [where T = Wrapped and U = Wrapped and primary = iterable_primary and C = narrow_char]
  have 1: "EigenDerived Widget"
    using w widget by blast
  have 2: "EigenDerived Matrix2"
    using 1 m widget by blast
  have 3: "range_format_kind iterable_primary Widget narrow_char = disabled"
    using w widget by blast
  have 4: "\<not> EigenDerived Wrapped"
    using x wrapped by blast
  have 5: "range_format_kind iterable_primary Wrapped narrow_char = sequence"
    using x q wrapped by simp
  from b p 1 2 3 4 5 show ?thesis
    by blast
qed

section \<open>The header among the host's formatters\<close>

lemma unmatched_leaves_host_choice:
  assumes "\<not> formatter_matches T narrow_char"
  shows "matching_formatters host T = host_formatters host T"
  using assms by (simp add: matching_formatters_def header_formatter_def)

lemma single_host_formatter_selected:
  assumes "matching_formatters host T = [f]"
  shows "select_formatter host T = selected f"
  using assms by (simp add: select_formatter_def)

text \<open>
  C4. A string-like type, a class type convertible to a string view, is not matched by
  the formatter specialisation: the header adds no formatter to those the host has for
  the type, and where the host's string formatter is its only one, that formatter is
  selected and nothing is contested.
\<close>

theorem string_like_not_matched:
  "is_class_v T \<Longrightarrow> converts_to_string_view T \<Longrightarrow>
     \<not> formatter_matches T C
     \<and> matching_formatters host T = host_formatters host T
     \<and> (host_formatters host T = [native h] \<longrightarrow> select_formatter host T = selected (native h))"
proof -
  assume "converts_to_string_view T"
  then have n: "\<not> formatter_matches T C" for C
    by (simp add: formatter_matches_def formatter_requires_def)
  have m: "matching_formatters host T = host_formatters host T"
    using n by (rule unmatched_leaves_host_choice)
  show ?thesis
    using n m single_host_formatter_selected [of host T "native h"] by simp
qed

theorem string_like_not_matched_witness:
  "is_class_v std_string \<and> converts_to_string_view std_string
   \<and> insertion_well_formed std_string const_object
   \<and> \<not> formatter_matches std_string narrow_char
   \<and> select_formatter example_host std_string = selected (native ''string'')"
proof -
  have c: "is_class_v std_string"
    by code_simp
  have v: "converts_to_string_view std_string"
    by code_simp
  have i: "insertion_well_formed std_string const_object"
    by code_simp
  have h: "host_formatters example_host std_string = [native ''string'']"
    by code_simp
  show ?thesis
    using c v i h
      string_like_not_matched [OF c v, of narrow_char example_host "''string''"]
    by simp
qed

text \<open>
  C5. A primitive numeric type, an arithmetic type and so not a class, is not matched by
  the formatter specialisation: the header adds no formatter to those the host has for
  the type, and where the host's native formatter is its only one, that formatter is
  selected.
\<close>

theorem arithmetic_not_matched:
  "category T = arithmetic_type \<Longrightarrow>
     \<not> is_class_v T
     \<and> \<not> formatter_matches T C
     \<and> matching_formatters host T = host_formatters host T
     \<and> (host_formatters host T = [native h] \<longrightarrow> select_formatter host T = selected (native h))"
proof -
  assume "category T = arithmetic_type"
  then have k: "\<not> is_class_v T"
    by (simp add: is_class_v_def)
  then have n: "\<not> formatter_matches T C" for C
    by (simp add: formatter_matches_def formatter_requires_def)
  have m: "matching_formatters host T = host_formatters host T"
    using n by (rule unmatched_leaves_host_choice)
  show ?thesis
    using k n m single_host_formatter_selected [of host T "native h"] by simp
qed

theorem arithmetic_not_matched_witness:
  "category int_type = arithmetic_type
   \<and> insertion_well_formed int_type const_object
   \<and> \<not> formatter_matches int_type narrow_char
   \<and> select_formatter example_host int_type = selected (native ''arithmetic'')"
proof -
  have a: "category int_type = arithmetic_type"
    by (simp add: int_type_def)
  have i: "insertion_well_formed int_type const_object"
    by code_simp
  have h: "host_formatters example_host int_type = [native ''arithmetic'']"
    by code_simp
  show ?thesis
    using a i h
      arithmetic_not_matched [OF a, of narrow_char example_host "''arithmetic''"]
    by simp
qed

section \<open>The text the stream formatter produces\<close>

lemma matched_alone_is_selected:
  assumes "formatter_matches T narrow_char" and "host_formatters host T = []"
  shows "select_formatter host T = selected ostream_formatter"
  using assms
  by (simp add: select_formatter_def matching_formatters_def header_formatter_def)

lemma ostream_format_appends:
  "ostream_format ins v out = out @ stream_capture ins v"
  by (simp add: ostream_format_def stream_capture_def)

text \<open>
  C1. For a class type with a stream-insertion operator that is not convertible to a
  string view, the header registers the stream formatter, and formatting a value through
  it gives exactly the text that writing the value to a fresh stream and capturing the
  result gives. That is also the text of formatting the value where the host has no
  formatter of its own for the type.
\<close>

theorem ostream_formatter_same_text_as_streaming:
  "is_class_v T \<Longrightarrow> \<not> converts_to_string_view T \<Longrightarrow> insertion_well_formed T const_object \<Longrightarrow>
     header_formatter T narrow_char = Some (ostream_formatter :: 'h formatter_impl)
     \<and> invoke ops (ostream_formatter :: 'h formatter_impl) v []
         = stream_capture (insertion ops) v
     \<and> (host_formatters host T = []
          \<longrightarrow> format_value host T ops v = Some (stream_capture (insertion ops) v))"
proof -
  assume "is_class_v T" and "\<not> converts_to_string_view T"
    and "insertion_well_formed T const_object"
  then have m: "formatter_matches T narrow_char"
    by (simp add: formatter_matches_def formatter_requires_def)
  have t: "invoke ops (ostream_formatter :: 'h formatter_impl) v []
      = stream_capture (insertion ops) v"
    by (simp add: ostream_format_appends)
  have "format_value host T ops v = Some (stream_capture (insertion ops) v)"
    if "host_formatters host T = []"
    using matched_alone_is_selected [OF m that] t by (simp add: format_value_def)
  with m t show ?thesis
    by (simp add: header_formatter_def)
qed

theorem ostream_formatter_same_text_as_streaming_witness:
  "is_class_v Point \<and> \<not> converts_to_string_view Point
   \<and> insertion_well_formed Point const_object
   \<and> host_formatters example_host Point = []
   \<and> stream_capture point_insert (3, 4) = ''(3, 4)''
   \<and> format_value example_host Point point_ops (3, 4) = Some ''(3, 4)''"
proof -
  have c: "is_class_v Point"
    by code_simp
  have v: "\<not> converts_to_string_view Point"
    by code_simp
  have i: "insertion_well_formed Point const_object"
    by code_simp
  have h: "host_formatters example_host Point = []"
    by code_simp
  have s: "stream_capture point_insert (3, 4) = ''(3, 4)''"
    by code_simp
  have o: "insertion point_ops = point_insert"
    by (simp add: point_ops_def)
  show ?thesis
    using c v i h s o
      ostream_formatter_same_text_as_streaming
        [OF c v i, where ops = point_ops and v = "(3, 4)" and host = example_host]
    by simp
qed

text \<open>
  C7. The stand-in matrix type has \<^verbatim>\<open>derived()\<close>, \<^verbatim>\<open>begin()\<close>, \<^verbatim>\<open>end()\<close> and a
  stream operator that writes a grid. Formatting the 2 by 2 identity gives the two-line
  grid of the stream operator, which is not the bracketed sequence of its entries,
  whatever range classification the host's own template gives the type.
\<close>

theorem matrix_stand_in_formats_as_grid:
  "native_formatter host Matrix2 = None \<Longrightarrow>
     format_value host Matrix2 matrix_ops identity2 = Some (''1 0'' @ [CHR 0x0A] @ ''0 1'')
     \<and> ''1 0'' @ [CHR 0x0A] @ ''0 1'' \<noteq> bracketed (range_elements matrix_ops identity2)"
proof -
  assume n: "native_formatter host Matrix2 = None"
  have e: "EigenDerived Matrix2"
    by code_simp
  have "range_format_kind (primary_range_kind host) Matrix2 narrow_char = disabled"
    using e by (simp add: range_format_kind_def)
  with n have h: "host_formatters host Matrix2 = []"
    by (simp add: host_formatters_def)
  have m: "formatter_matches Matrix2 narrow_char"
    by code_simp
  have g: "stream_capture matrix_insert identity2 = ''1 0'' @ [CHR 0x0A] @ ''0 1''"
    by code_simp
  have i: "insertion matrix_ops = matrix_insert"
    by (simp add: matrix_ops_def)
  have f: "format_value host Matrix2 matrix_ops identity2
      = Some (''1 0'' @ [CHR 0x0A] @ ''0 1'')"
    using matched_alone_is_selected [OF m h] g i
    by (simp add: format_value_def ostream_format_appends)
  have b: "''1 0'' @ [CHR 0x0A] @ ''0 1'' \<noteq> bracketed (range_elements matrix_ops identity2)"
    by code_simp
  from f b show ?thesis
    by simp
qed

theorem matrix_stand_in_formats_as_grid_witness:
  "native_formatter example_host Matrix2 = None
   \<and> primary_range_kind example_host Matrix2 narrow_char = sequence
   \<and> invoke matrix_ops (range_formatter sequence) identity2 [] = ''[1, 0, 0, 1]''
   \<and> format_value example_host Matrix2 matrix_ops identity2
       = Some (''1 0'' @ [CHR 0x0A] @ ''0 1'')"
proof -
  have n: "native_formatter example_host Matrix2 = None"
    by code_simp
  have p: "primary_range_kind example_host Matrix2 narrow_char = sequence"
    by code_simp
  have r: "invoke matrix_ops (range_formatter sequence) identity2 [] = ''[1, 0, 0, 1]''"
    by code_simp
  show ?thesis
    using n p r matrix_stand_in_formats_as_grid [OF n]
    by simp
qed

lemma format_calls_snoc:
  "format_calls (cs @ [(ins, v)]) out = format_calls cs out @ stream_capture ins v"
  by (induction cs arbitrary: out) (auto simp: ostream_format_appends)

lemma produced_text_is_capture:
  "produced_text ins v out = stream_capture ins v"
  by (simp add: produced_text_def ostream_format_appends)

text \<open>
  C8. The stream formatter keeps no state between calls. The text a call adds for a value
  is the same after any two histories of earlier calls and outputs: it is the text of
  streaming the value into a fresh stream, and a sequence of calls appends exactly that
  text for its last call.
\<close>

theorem formatting_is_history_independent:
  "produced_text ins v (format_calls before out)
     = produced_text ins v (format_calls before' out')
   \<and> produced_text ins v out = stream_capture ins v
   \<and> format_calls (before @ [(ins, v)]) out = format_calls before out @ stream_capture ins v"
  by (simp add: produced_text_is_capture format_calls_snoc)

theorem formatting_is_history_independent_witness:
  "produced_text sticky_insert 7 (format_calls [(sticky_insert, 7)] []) = ''dec''
   \<and> produced_text sticky_insert 7 [] = ''dec''
   \<and> format_calls [(sticky_insert, 7), (sticky_insert, 7)] [] = ''decdec''
   \<and> buffer (sticky_insert 7 (sticky_insert 7 fresh_ostream)) = ''dechex''"
proof -
  have a: "produced_text sticky_insert 7 [] = ''dec''"
    by code_simp
  have b: "format_calls [(sticky_insert, 7), (sticky_insert, 7)] [] = ''decdec''"
    by code_simp
  have c: "buffer (sticky_insert 7 (sticky_insert 7 fresh_ostream)) = ''dechex''"
    by code_simp
  show ?thesis
    using a b c
      formatting_is_history_independent
        [where ins = sticky_insert and v = 7 and before = "[(sticky_insert, 7)]"
           and out = "[]" and before' = "[]" and out' = "[]"]
    by simp
qed

end
